theory Spec2Isabelle
  imports Main "HOL-Library.Word"
begin

unbundle bit_operations_syntax

section \<open>Machine integers, handles, errors\<close>

type_synonym u8 = "8 word"
type_synonym u32 = "32 word"
type_synonym u64 = "64 word"
type_synonym usize = "64 word"

text \<open>A non-null pointer to a backend object (an \<^verbatim>\<open>MTL::Buffer*\<close>, an encoder, ...).\<close>

type_synonym handle = nat

text \<open>The error codes of \<^verbatim>\<open>BasicError\<close> that the modelled functions return.\<close>

datatype ErrCode = bad_arguments | bad_platform_call | not_supported | backend_failure nat

text \<open>\<^verbatim>\<open>RV\<close>: \<^verbatim>\<open>ok\<close> is \<open>Inr ()\<close>, an error code is \<open>Inl\<close>.\<close>

type_synonym RV = "ErrCode + unit"

text \<open>
  A fatal stop of the process. \<^verbatim>\<open>OS::assert_fail\<close> (Assert.cpp) prints the message and
  calls \<^verbatim>\<open>abort()\<close>; dereferencing a null pointer is the other way a modelled function
  does not return.
\<close>

datatype fault = assert_fail string | null_dereference

text \<open>
  Modelled from the spec: the macro \<^verbatim>\<open>lucheck_msg\<close> is defined in a header that is not
  part of the sources at hand. Section 7 of the specification: programmer-error
  preconditions are asserted and fatal (in configurations that check them). A failed
  check ends in \<^verbatim>\<open>OS::assert_fail\<close> with the message.
\<close>

definition lucheck_msg :: "bool \<Rightarrow> string \<Rightarrow> fault + unit" where
  "lucheck_msg condition message = (if condition then Inr () else Inl (assert_fail message))"


section \<open>D3D12 backend: \<^verbatim>\<open>ResourceHeap::init\<close>\<close>

text \<open>
  Modelled from the spec: the enumeration \<^verbatim>\<open>ResourceHeapUsageFlag\<close> is declared in a
  header that is not part of the sources at hand. Its members are the four that
  \<^verbatim>\<open>ResourceHeap::init\<close> names; a usage mask (section 4.2 of the specification: the
  requested \<^verbatim>\<open>ResourceHeapUsageFlag\<close> set) is the set of the flags it names.
\<close>

datatype ResourceHeapUsageFlag = buffer | texture_rt_ds | texture_non_rt_ds | texture_msaa

text \<open>
  Modelled from the spec: the template \<^verbatim>\<open>test_flags\<close> is defined in a header that is not
  part of the sources at hand. \<^verbatim>\<open>test_flags(mask, flag)\<close> for one flag says whether the
  mask names the flag.
\<close>

definition test_flags :: "ResourceHeapUsageFlag set \<Rightarrow> ResourceHeapUsageFlag \<Rightarrow> bool" where
  "test_flags flags option = (option \<in> flags)"

datatype ResourceHeapType = heap_local | heap_upload | heap_readback

record ResourceHeapDesc =
  heap_type :: ResourceHeapType
  heap_size :: u64
  usages :: "ResourceHeapUsageFlag set"

text \<open>The values of \<^verbatim>\<open>D3D12_HEAP_FLAGS\<close> and of the MSAA alignment in \<^verbatim>\<open>d3d12.h\<close>.\<close>

definition D3D12_HEAP_FLAG_DENY_BUFFERS :: u32 where
  "D3D12_HEAP_FLAG_DENY_BUFFERS = 0x4"

definition D3D12_HEAP_FLAG_DENY_RT_DS_TEXTURES :: u32 where
  "D3D12_HEAP_FLAG_DENY_RT_DS_TEXTURES = 0x40"

definition D3D12_HEAP_FLAG_DENY_NON_RT_DS_TEXTURES :: u32 where
  "D3D12_HEAP_FLAG_DENY_NON_RT_DS_TEXTURES = 0x80"

definition D3D12_DEFAULT_MSAA_RESOURCE_PLACEMENT_ALIGNMENT :: u64 where
  "D3D12_DEFAULT_MSAA_RESOURCE_PLACEMENT_ALIGNMENT = 4194304"

record D3D12_HEAP_DESC =
  SizeInBytes :: u64
  Properties :: ResourceHeapType
  Alignment :: u64
  Flags :: u32

text \<open>
  The heap description that \<^verbatim>\<open>ResourceHeap::init\<close> fills in, statement by statement.
  \<^verbatim>\<open>encode_heap_properties\<close> is not part of the sources at hand; the heap type is passed
  through.
\<close>

definition heap_desc_of :: "ResourceHeapDesc \<Rightarrow> D3D12_HEAP_DESC" where
  "heap_desc_of desc =
    (let d0 = \<lparr>SizeInBytes = heap_size desc, Properties = heap_type desc,
               Alignment = (if test_flags (usages desc) texture_msaa
                            then D3D12_DEFAULT_MSAA_RESOURCE_PLACEMENT_ALIGNMENT else 0),
               Flags = D3D12_HEAP_FLAG_DENY_BUFFERS OR D3D12_HEAP_FLAG_DENY_RT_DS_TEXTURES
                         OR D3D12_HEAP_FLAG_DENY_NON_RT_DS_TEXTURES\<rparr>;
         d1 = (if test_flags (usages desc) buffer
               then d0\<lparr>Flags := Flags d0 AND NOT D3D12_HEAP_FLAG_DENY_BUFFERS\<rparr> else d0);
         d2 = (if test_flags (usages desc) texture_rt_ds
               then d1\<lparr>Flags := Flags d1 AND NOT D3D12_HEAP_FLAG_DENY_RT_DS_TEXTURES\<rparr> else d1);
         d3 = (if test_flags (usages desc) texture_non_rt_ds
               then d2\<lparr>Flags := Flags d2 AND NOT D3D12_HEAP_FLAG_DENY_NON_RT_DS_TEXTURES\<rparr> else d2)
     in d3)"

text \<open>
  \<^verbatim>\<open>ResourceHeap::init\<close>: the device's \<^verbatim>\<open>CreateHeap\<close> is the environment; it answers
  with a heap or with a failing \<^verbatim>\<open>HRESULT\<close>, which \<^verbatim>\<open>encode_d3d12_error\<close> turns into an
  error code.
\<close>

definition ResourceHeap_init ::
  "(D3D12_HEAP_DESC \<Rightarrow> ErrCode + handle) \<Rightarrow> ResourceHeapDesc \<Rightarrow> ErrCode + handle" where
  "ResourceHeap_init CreateHeap desc =
    (case CreateHeap (heap_desc_of desc) of Inl hr \<Rightarrow> Inl hr | Inr m_heap \<Rightarrow> Inr m_heap)"

text \<open>A heap description contains a flag when all bits of the flag are set in it.\<close>

definition has_heap_flag :: "D3D12_HEAP_DESC \<Rightarrow> u32 \<Rightarrow> bool" where
  "has_heap_flag d flag = (Flags d AND flag = flag)"


section \<open>Metal backend: resources\<close>

text \<open>
  Modelled from the spec: the enumeration \<^verbatim>\<open>Format\<close> is declared in a header that is not
  part of the sources at hand. Only the members that the modelled code names are kept
  apart; every other pixel format is \<open>other_format\<close> with its number.
\<close>

datatype Format = unknown | r16_uint | r32_uint | other_format nat

text \<open>
  The Metal resource classes (Resource.hpp of the Metal backend) are not part of the
  sources at hand; the fields below are the ones the modelled functions read:
  \<^verbatim>\<open>m_desc.size\<close>, \<^verbatim>\<open>m_buffer\<close> and \<^verbatim>\<open>m_buffer->gpuAddress()\<close> of a \<^verbatim>\<open>Buffer\<close>;
  \<^verbatim>\<open>m_desc.width\<close>, \<^verbatim>\<open>m_desc.height\<close>, \<^verbatim>\<open>m_texture\<close> and
  \<^verbatim>\<open>m_texture->gpuResourceID()\<close> of a \<^verbatim>\<open>Texture\<close>. The width and height are read into
  locals of type \<^verbatim>\<open>u32\<close>.
\<close>

record Buffer =
  buf_m_buffer :: handle
  buf_size :: u64
  buf_gpuAddress :: u64

record Texture =
  tex_m_texture :: handle
  tex_width :: u32
  tex_height :: u32
  tex_gpuResourceID :: u64

text \<open>An \<^verbatim>\<open>IResource*\<close> points to a \<^verbatim>\<open>Buffer\<close> or to a \<^verbatim>\<open>Texture\<close> object.\<close>

datatype Resource = BufferObject Buffer | TextureObject Texture

text \<open>\<^verbatim>\<open>cast_object<T>\<close> yields the object when it is a \<^verbatim>\<open>T\<close> and \<^verbatim>\<open>nullptr\<close> otherwise.\<close>

fun cast_object_Buffer :: "Resource \<Rightarrow> Buffer option" where
  "cast_object_Buffer (BufferObject b) = Some b"
| "cast_object_Buffer (TextureObject t) = None"

fun cast_object_Texture :: "Resource \<Rightarrow> Texture option" where
  "cast_object_Texture (TextureObject t) = Some t"
| "cast_object_Texture (BufferObject b) = None"


section \<open>Metal backend: descriptor sets\<close>

datatype DescriptorType =
  uniform_buffer_view | read_buffer_view | read_write_buffer_view
  | read_texture_view | read_write_texture_view | sampler

record DescriptorSetLayoutBinding =
  binding_type :: DescriptorType
  binding_slot :: u32
  num_descs :: u32

record DescriptorSetLayout =
  m_bindings :: "DescriptorSetLayoutBinding list"
  m_argument_offsets :: "u64 list"

text \<open>
  A buffer view. \<^verbatim>\<open>first_element\<close> is 64-bit, as the local \<^verbatim>\<open>u64 data_offset\<close> that it
  initialises; with it every product that \<^verbatim>\<open>update_descriptors\<close> forms is 64-bit.
\<close>

record BufferViewDesc =
  bv_buffer :: Buffer
  first_element :: u64
  element_count :: u32
  element_size :: u32
  bv_format :: Format

record TextureViewDesc =
  tv_texture :: Texture
  tv_format :: Format
  tv_mip_slice :: u32
  tv_mip_size :: u32
  tv_array_slice :: u32
  tv_array_size :: u32

text \<open>
  A portable sampler description. Its translation into an \<^verbatim>\<open>MTL::SamplerDescriptor\<close>
  goes through \<^verbatim>\<open>encode_*\<close> helpers that are not part of the sources at hand, so a
  description is identified by a number and the translation belongs to
  \<open>newSamplerState\<close> below.
\<close>

type_synonym SamplerDesc = nat

record WriteDescriptorSet =
  write_binding_slot :: u32
  write_first_array_index :: u32
  write_type :: DescriptorType
  buffer_views :: "BufferViewDesc list"
  texture_views :: "TextureViewDesc list"
  samplers :: "SamplerDesc list"

text \<open>
  What \<^verbatim>\<open>update_descriptors\<close> calls and the sources at hand do not define: the format
  table \<^verbatim>\<open>bits_per_pixel\<close>, the texture-view helpers, and the device's sampler factory
  (a sampler object with its \<^verbatim>\<open>gpuResourceID\<close>, or \<^verbatim>\<open>nullptr\<close>).
\<close>

record Backend =
  bits_per_pixel :: "Format \<Rightarrow> u64"
  validate_texture_view_desc :: "Texture \<Rightarrow> TextureViewDesc \<Rightarrow> TextureViewDesc"
  require_view_object :: "Texture \<Rightarrow> TextureViewDesc \<Rightarrow> bool"
  get_texture_view :: "Texture \<Rightarrow> TextureViewDesc \<Rightarrow> ErrCode + u64"
  newSamplerState :: "SamplerDesc \<Rightarrow> (handle \<times> u64) option"

text \<open>
  A descriptor set: its layout, its argument buffer \<^verbatim>\<open>m_buffer\<close> with the contents
  read as an array of 64-bit words (\<open>data\<close>), the resources retained per binding
  (\<^verbatim>\<open>m_bindings[b].m_resources[i]\<close>) and the sampler cache. The source indexes the
  argument buffer and the resource vectors without a range check of its own; both are
  total maps from the index here, so what is proved is about the slots a write names.
\<close>

record DescriptorSet =
  m_layout :: DescriptorSetLayout
  set_m_buffer :: handle
  data :: "nat \<Rightarrow> u64"
  m_resources :: "nat \<Rightarrow> nat \<Rightarrow> handle option"
  m_samplers :: "u32 \<rightharpoonup> handle"

text \<open>
  The scan \<^verbatim>\<open>for(; binding_index < m_bindings.size(); ++binding_index)\<close> with its
  \<^verbatim>\<open>break\<close> at the first record of the slot: the index where it stops, counted from the
  head of the list; the length of the list when no record matches.
\<close>

fun find_binding_index :: "DescriptorSetLayoutBinding list \<Rightarrow> u32 \<Rightarrow> nat" where
  "find_binding_index [] slot = 0"
| "find_binding_index (b # bs) slot =
     (if slot = binding_slot b then 0 else Suc (find_binding_index bs slot))"

text \<open>The local \<^verbatim>\<open>data_offset\<close> of the \<^verbatim>\<open>uniform_buffer_view\<close> case.\<close>

definition uniform_data_offset :: "BufferViewDesc \<Rightarrow> u64" where
  "uniform_data_offset view = first_element view"

text \<open>
  The local \<^verbatim>\<open>data_offset\<close> of the \<^verbatim>\<open>read_buffer_view\<close> and
  \<^verbatim>\<open>read_write_buffer_view\<close> cases; the products are 64-bit and wrap around.
\<close>

definition typed_data_offset :: "Backend \<Rightarrow> BufferViewDesc \<Rightarrow> u64" where
  "typed_data_offset env view =
     (if bv_format view = unknown then ucast (element_size view) * first_element view
      else (bits_per_pixel env (bv_format view) * first_element view) div 8)"

text \<open>
  The loop over \<^verbatim>\<open>write.buffer_views\<close>, from index \<open>i\<close> on. \<open>data_offset\<close> is the
  offset rule of the case the loop stands in.
\<close>

fun write_buffer_views ::
  "(BufferViewDesc \<Rightarrow> u64) \<Rightarrow> nat \<Rightarrow> nat \<Rightarrow> nat \<Rightarrow> nat \<Rightarrow> BufferViewDesc list
     \<Rightarrow> DescriptorSet \<Rightarrow> DescriptorSet" where
  "write_buffer_views data_offset argument_offset binding_index first_array_index i [] st = st"
| "write_buffer_views data_offset argument_offset binding_index first_array_index i (view # views) st =
     write_buffer_views data_offset argument_offset binding_index first_array_index (Suc i) views
       (st\<lparr>data := (data st)(argument_offset + i :=
                 buf_gpuAddress (bv_buffer view) + data_offset view),
           m_resources := (m_resources st)(binding_index :=
                 (m_resources st binding_index)(first_array_index + i :=
                    Some (buf_m_buffer (bv_buffer view))))\<rparr>)"

text \<open>
  The loop over \<^verbatim>\<open>write.texture_views\<close>. \<^verbatim>\<open>lulet\<close> leaves the function with the error
  of \<^verbatim>\<open>get_texture_view\<close>; what earlier iterations wrote stays written.
\<close>

fun write_texture_views ::
  "Backend \<Rightarrow> nat \<Rightarrow> nat \<Rightarrow> nat \<Rightarrow> nat \<Rightarrow> TextureViewDesc list
     \<Rightarrow> DescriptorSet \<Rightarrow> RV \<times> DescriptorSet" where
  "write_texture_views env argument_offset binding_index first_array_index i [] st = (Inr (), st)"
| "write_texture_views env argument_offset binding_index first_array_index i (v # views) st =
     (let tex = tv_texture v;
          view = validate_texture_view_desc env tex v;
          retain_tex = (\<lambda>s. s\<lparr>m_resources := (m_resources s)(binding_index :=
                 (m_resources s binding_index)(first_array_index + i :=
                    Some (tex_m_texture tex)))\<rparr>)
      in if require_view_object env tex view then
           (case get_texture_view env tex view of
              Inl err \<Rightarrow> (Inl err, st)
            | Inr ident \<Rightarrow>
                write_texture_views env argument_offset binding_index first_array_index (Suc i) views
                  (retain_tex (st\<lparr>data := (data st)(argument_offset + i := ident)\<rparr>)))
         else
           write_texture_views env argument_offset binding_index first_array_index (Suc i) views
             (retain_tex (st\<lparr>data := (data st)(argument_offset + i := tex_gpuResourceID tex)\<rparr>)))"

text \<open>
  The loop over \<^verbatim>\<open>write.samplers\<close>; a null sampler ends the function with
  \<^verbatim>\<open>bad_platform_call\<close>. The cache key is computed in 32 bits.
\<close>

fun write_samplers ::
  "Backend \<Rightarrow> nat \<Rightarrow> u32 \<Rightarrow> u32 \<Rightarrow> nat \<Rightarrow> SamplerDesc list
     \<Rightarrow> DescriptorSet \<Rightarrow> RV \<times> DescriptorSet" where
  "write_samplers env argument_offset slot first_array_index i [] st = (Inr (), st)"
| "write_samplers env argument_offset slot first_array_index i (view # views) st =
     (case newSamplerState env view of
        None \<Rightarrow> (Inl bad_platform_call, st)
      | Some (sampler_obj, ident) \<Rightarrow>
          write_samplers env argument_offset slot first_array_index (Suc i) views
            (st\<lparr>m_samplers := (m_samplers st)(slot + first_array_index + of_nat i \<mapsto> sampler_obj),
                data := (data st)(argument_offset + i := ident)\<rparr>))"

text \<open>
  The local \<^verbatim>\<open>argument_offset\<close>: a 64-bit sum, used as an index into the argument
  buffer.
\<close>

definition argument_offset_of :: "DescriptorSetLayout \<Rightarrow> nat \<Rightarrow> WriteDescriptorSet \<Rightarrow> nat" where
  "argument_offset_of layout binding_index write =
     unat (m_argument_offsets layout ! binding_index + ucast (write_first_array_index write))"

text \<open>
  Modelled from the spec: \<^verbatim>\<open>set_error\<close> is defined in a header that is not part of the
  sources at hand. Sections 4.3 and 7 of the specification: an unresolved binding slot
  fails with \<^verbatim>\<open>BadArguments\<close>; so the call yields the error code it is given, and the
  formatted message (kept here without its argument) is what it records for the caller.
\<close>

definition set_error :: "ErrCode \<Rightarrow> string \<Rightarrow> ErrCode" where
  "set_error code message = code"

text \<open>The body of the loop over the writes, for one write.\<close>

definition apply_write :: "Backend \<Rightarrow> WriteDescriptorSet \<Rightarrow> DescriptorSet \<Rightarrow> RV \<times> DescriptorSet" where
  "apply_write env write st =
     (let binding_index = find_binding_index (m_bindings (m_layout st)) (write_binding_slot write)
      in if binding_index = length (m_bindings (m_layout st))
         then (Inl (set_error bad_arguments
                 ''The specified binding number %d is not specified in the descriptor set layout.''), st)
         else
           (let argument_offset = argument_offset_of (m_layout st) binding_index write;
                first_array_index = unat (write_first_array_index write)
            in case write_type write of
                 uniform_buffer_view \<Rightarrow>
                   (Inr (), write_buffer_views uniform_data_offset argument_offset binding_index
                              first_array_index 0 (buffer_views write) st)
               | read_buffer_view \<Rightarrow>
                   (Inr (), write_buffer_views (typed_data_offset env) argument_offset binding_index
                              first_array_index 0 (buffer_views write) st)
               | read_write_buffer_view \<Rightarrow>
                   (Inr (), write_buffer_views (typed_data_offset env) argument_offset binding_index
                              first_array_index 0 (buffer_views write) st)
               | read_texture_view \<Rightarrow>
                   write_texture_views env argument_offset binding_index first_array_index 0
                     (texture_views write) st
               | read_write_texture_view \<Rightarrow>
                   write_texture_views env argument_offset binding_index first_array_index 0
                     (texture_views write) st
               | sampler \<Rightarrow>
                   write_samplers env argument_offset (write_binding_slot write)
                     (write_first_array_index write) 0 (samplers write) st))"

text \<open>
  \<^verbatim>\<open>DescriptorSet::update_descriptors\<close>: the writes in order; the first error ends the
  call and is returned, with the set as the writes before it left it.
\<close>

fun update_descriptors :: "Backend \<Rightarrow> WriteDescriptorSet list \<Rightarrow> DescriptorSet \<Rightarrow> RV \<times> DescriptorSet" where
  "update_descriptors env [] st = (Inr (), st)"
| "update_descriptors env (write # writes) st =
     (case apply_write env write st of
        (Inl err, st') \<Rightarrow> (Inl err, st')
      | (Inr ok, st') \<Rightarrow> update_descriptors env writes st')"


text \<open>The binding slots that the layout of a set declares.\<close>

definition slots_of :: "DescriptorSet \<Rightarrow> u32 set" where
  "slots_of st = binding_slot ` set (m_bindings (m_layout st))"

text \<open>The argument slot that entry \<open>j\<close> of a write goes to.\<close>

definition argument_slot :: "DescriptorSet \<Rightarrow> WriteDescriptorSet \<Rightarrow> nat \<Rightarrow> nat" where
  "argument_slot st write j =
     argument_offset_of (m_layout st)
       (find_binding_index (m_bindings (m_layout st)) (write_binding_slot write)) write + j"


section \<open>Metal backend: command buffer\<close>

record IndexBufferView =
  ibv_buffer :: "Buffer option"
  ibv_offset :: u64
  ibv_size :: u32
  ibv_format :: Format

record ColorAttachment =
  ca_texture :: "Texture option"
  ca_mip_slice :: u32
  ca_array_slice :: u32

record ResolveAttachment =
  ra_texture :: "Texture option"
  ra_mip_slice :: u32
  ra_array_slice :: u32

record DepthStencilAttachment =
  dsa_texture :: "Texture option"
  dsa_mip_slice :: u32
  dsa_array_slice :: u32

text \<open>
  \<^verbatim>\<open>RenderPassDesc\<close>: \<open>color_attachments\<close> and \<open>resolve_attachments\<close> are the two arrays
  of eight entries; a null \<^verbatim>\<open>texture\<close> pointer is \<open>None\<close>. The load, store and clear
  settings go through \<^verbatim>\<open>encode_load_action\<close> and \<^verbatim>\<open>encode_store_action\<close>, which are not
  part of the sources at hand, and bear on neither the pass state nor the size of the
  render target; they are left out.
\<close>

record RenderPassDesc =
  color_attachments :: "ColorAttachment list"
  resolve_attachments :: "ResolveAttachment list"
  depth_stencil_attachment :: DepthStencilAttachment
  array_size :: u32
  sample_count :: u8

record MTLRenderPassColorAttachmentDescriptor =
  att_texture :: handle
  att_level :: u32
  att_slice :: u32
  att_resolveTexture :: "handle option"
  att_resolveLevel :: u32
  att_resolveSlice :: u32

record MTLRenderPassAttachmentDescriptor =
  dsd_texture :: handle
  dsd_level :: u32
  dsd_slice :: u32

text \<open>
  The \<^verbatim>\<open>MTL::RenderPassDescriptor\<close> built by \<^verbatim>\<open>begin_render_pass\<close>. \<open>colorAttachments\<close>
  lists the entries set at indices 0, 1, ... in order; the sizes are \<^verbatim>\<open>NS::UInteger\<close>.
\<close>

record MTLRenderPassDescriptor =
  colorAttachments :: "MTLRenderPassColorAttachmentDescriptor list"
  depthAttachment :: "MTLRenderPassAttachmentDescriptor option"
  stencilAttachment :: "MTLRenderPassAttachmentDescriptor option"
  renderTargetArrayLength :: u64
  renderTargetWidth :: u64
  renderTargetHeight :: u64
  defaultRasterSampleCount :: u64

datatype MTLPrimitiveType =
  PrimitiveTypePoint | PrimitiveTypeLine | PrimitiveTypeLineStrip
  | PrimitiveTypeTriangle | PrimitiveTypeTriangleStrip

datatype MTLIndexType = IndexTypeUInt16 | IndexTypeUInt32

record DrawIndexedPrimitives =
  primitiveType :: MTLPrimitiveType
  indexCount :: u64
  indexType :: MTLIndexType
  indexBuffer :: handle
  indexBufferOffset :: u64
  instanceCount :: u64
  baseVertex :: u64
  baseInstance :: u64

text \<open>
  The calls into Metal that the modelled functions make, in the order made. The first
  argument of a call on an encoder is the encoder.
\<close>

datatype mtl_call =
    commandBuffer
  | renderCommandEncoder MTLRenderPassDescriptor
  | computeCommandEncoder
  | blitCommandEncoder
  | endEncoding handle
  | setVertexBuffer handle handle u64 u64
  | setFragmentBuffer handle handle u64 u64
  | setVertexBuffers handle "handle list" "u64 list" u64 u64
  | setFragmentBuffers handle "handle list" "u64 list" u64 u64
  | drawIndexedPrimitives handle DrawIndexedPrimitives
  | copyFromBuffer handle handle u64 handle u64 u64
  | copyFromTexture handle handle handle
  | memoryBarrier handle "handle list"

text \<open>
  The members of \<^verbatim>\<open>CommandBuffer\<close> that the modelled functions touch (the class is
  declared in a header that is not part of the sources at hand), and \<open>mtl_calls\<close>, the
  calls made so far. A null \<^verbatim>\<open>NSPtr\<close> is \<open>None\<close>.
\<close>

record CommandBuffer =
  m_command_queue_index :: u32
  m_buffer :: "handle option"
  m_objs :: "handle list"
  m_render :: "handle option"
  m_compute :: "handle option"
  m_blit :: "handle option"
  m_index_buffer_view :: IndexBufferView
  m_primitive_type :: MTLPrimitiveType
  mtl_calls :: "mtl_call list"

text \<open>
  A command buffer object before \<^verbatim>\<open>init\<close>: every pointer null, nothing attached. (The
  primitive type before a pipeline state is set plays no part in what follows.)
\<close>

definition new_CommandBuffer :: CommandBuffer where
  "new_CommandBuffer =
     \<lparr>m_command_queue_index = 0, m_buffer = None, m_objs = [], m_render = None,
      m_compute = None, m_blit = None,
      m_index_buffer_view = \<lparr>ibv_buffer = None, ibv_offset = 0, ibv_size = 0, ibv_format = unknown\<rparr>,
      m_primitive_type = PrimitiveTypeTriangle, mtl_calls = []\<rparr>"

text \<open>
  \<^verbatim>\<open>CommandBuffer::init\<close> and \<^verbatim>\<open>CommandBuffer::reset\<close>. \<open>queue_buffer\<close> is what the
  queue's \<^verbatim>\<open>commandBuffer()\<close> answers: a command buffer, or \<^verbatim>\<open>nullptr\<close>.
\<close>

definition init :: "handle option \<Rightarrow> u32 \<Rightarrow> CommandBuffer \<Rightarrow> RV \<times> CommandBuffer" where
  "init queue_buffer command_queue_index cb =
     (let cb1 = cb\<lparr>m_command_queue_index := command_queue_index\<rparr>;
          cb2 = cb1\<lparr>m_buffer := queue_buffer, mtl_calls := mtl_calls cb1 @ [commandBuffer]\<rparr>
      in if m_buffer cb2 = None then (Inl bad_platform_call, cb2) else (Inr (), cb2))"

definition reset :: "handle option \<Rightarrow> CommandBuffer \<Rightarrow> RV \<times> CommandBuffer" where
  "reset queue_buffer cb =
     (let cb1 = cb\<lparr>m_objs := []\<rparr>;
          cb2 = cb1\<lparr>m_buffer := queue_buffer, mtl_calls := mtl_calls cb1 @ [commandBuffer]\<rparr>
      in if m_buffer cb2 = None then (Inl bad_platform_call, cb2) else (Inr (), cb2))"

definition attach_device_object :: "handle \<Rightarrow> CommandBuffer \<Rightarrow> CommandBuffer" where
  "attach_device_object obj cb = cb\<lparr>m_objs := m_objs cb @ [obj]\<rparr>"

text \<open>The passes whose encoder pointer is not null.\<close>

datatype Pass = RenderPass | ComputePass | CopyPass

definition open_passes :: "CommandBuffer \<Rightarrow> Pass list" where
  "open_passes cb =
     (if m_render cb = None then [] else [RenderPass])
     @ (if m_compute cb = None then [] else [ComputePass])
     @ (if m_blit cb = None then [] else [CopyPass])"

text \<open>
  The loop over the eight colour attachment slots of \<^verbatim>\<open>begin_render_pass\<close>, with its
  \<^verbatim>\<open>break\<close> at the first slot without a texture. The accumulator holds the colour
  attachments set so far and the locals \<^verbatim>\<open>width\<close> and \<^verbatim>\<open>height\<close>.
\<close>

fun color_attachment_loop ::
  "(ColorAttachment \<times> ResolveAttachment) list
     \<Rightarrow> MTLRenderPassColorAttachmentDescriptor list \<times> u32 \<times> u32
     \<Rightarrow> MTLRenderPassColorAttachmentDescriptor list \<times> u32 \<times> u32" where
  "color_attachment_loop [] acc = acc"
| "color_attachment_loop ((src, resolve_src) # rest) (atts, width, height) =
     (case ca_texture src of
        None \<Rightarrow> (atts, width, height)
      | Some tex \<Rightarrow>
          color_attachment_loop rest
            (atts @ [\<lparr>att_texture = tex_m_texture tex, att_level = ca_mip_slice src,
                      att_slice = ca_array_slice src,
                      att_resolveTexture = map_option tex_m_texture (ra_texture resolve_src),
                      att_resolveLevel = (if ra_texture resolve_src = None then 0
                                          else ra_mip_slice resolve_src),
                      att_resolveSlice = (if ra_texture resolve_src = None then 0
                                          else ra_array_slice resolve_src)\<rparr>],
             tex_width tex, tex_height tex))"

text \<open>The eight slots the loop visits: slot \<open>i\<close> pairs the two array entries of index \<open>i\<close>.\<close>

definition attachment_slots :: "RenderPassDesc \<Rightarrow> (ColorAttachment \<times> ResolveAttachment) list" where
  "attachment_slots desc = take 8 (zip (color_attachments desc) (resolve_attachments desc))"


text \<open>The descriptor \<^verbatim>\<open>d\<close> that \<^verbatim>\<open>begin_render_pass\<close> hands to \<^verbatim>\<open>renderCommandEncoder\<close>.\<close>

definition render_pass_descriptor :: "RenderPassDesc \<Rightarrow> MTLRenderPassDescriptor" where
  "render_pass_descriptor desc =
     (case color_attachment_loop (attachment_slots desc) ([], 0, 0) of
        (atts, width0, height0) \<Rightarrow>
          (let src = depth_stencil_attachment desc;
               ds = map_option (\<lambda>tex. \<lparr>dsd_texture = tex_m_texture tex, dsd_level = dsa_mip_slice src,
                                        dsd_slice = dsa_array_slice src\<rparr>) (dsa_texture src);
               width = (case dsa_texture src of None \<Rightarrow> width0 | Some tex \<Rightarrow> tex_width tex);
               height = (case dsa_texture src of None \<Rightarrow> height0 | Some tex \<Rightarrow> tex_height tex)
           in \<lparr>colorAttachments = atts, depthAttachment = ds, stencilAttachment = ds,
               renderTargetArrayLength = (if 1 < array_size desc then ucast (array_size desc) else 0),
               renderTargetWidth = ucast width, renderTargetHeight = ucast height,
               defaultRasterSampleCount = ucast (sample_count desc)\<rparr>))"

text \<open>
  The three functions that open a pass. \<open>encoder\<close> is the encoder object that the Metal
  command buffer answers with; the source stores it unchecked.
\<close>

definition begin_render_pass :: "handle \<Rightarrow> RenderPassDesc \<Rightarrow> CommandBuffer \<Rightarrow> fault + CommandBuffer" where
  "begin_render_pass encoder desc cb =
     (case lucheck_msg (m_render cb = None \<and> m_compute cb = None \<and> m_blit cb = None)
             ''begin_render_pass can only be called when no other pass is open.'' of
        Inl f \<Rightarrow> Inl f
      | Inr ok \<Rightarrow>
          Inr (cb\<lparr>m_render := Some encoder,
                 mtl_calls := mtl_calls cb @ [renderCommandEncoder (render_pass_descriptor desc)]\<rparr>))"

definition begin_compute_pass :: "handle \<Rightarrow> CommandBuffer \<Rightarrow> fault + CommandBuffer" where
  "begin_compute_pass encoder cb =
     (case lucheck_msg (m_render cb = None \<and> m_compute cb = None \<and> m_blit cb = None)
             ''begin_compute_pass can only be called when no other pass is open.'' of
        Inl f \<Rightarrow> Inl f
      | Inr ok \<Rightarrow>
          Inr (cb\<lparr>m_compute := Some encoder, mtl_calls := mtl_calls cb @ [computeCommandEncoder]\<rparr>))"

definition begin_copy_pass :: "handle \<Rightarrow> CommandBuffer \<Rightarrow> fault + CommandBuffer" where
  "begin_copy_pass encoder cb =
     (case lucheck_msg (m_render cb = None \<and> m_compute cb = None \<and> m_blit cb = None)
             ''begin_copy_pass can only be called when no other pass is open.'' of
        Inl f \<Rightarrow> Inl f
      | Inr ok \<Rightarrow>
          Inr (cb\<lparr>m_blit := Some encoder, mtl_calls := mtl_calls cb @ [blitCommandEncoder]\<rparr>))"

text \<open>
  Modelled from the spec: \<^verbatim>\<open>assert_graphcis_context\<close> is defined in the header of the
  class, which is not part of the sources at hand. Section 4.4 and section 7 of the
  specification: the calls of the draw family are legal only in a render pass, and a call
  in another state is an asserted precondition violation.
\<close>

definition assert_graphcis_context :: "CommandBuffer \<Rightarrow> fault + unit" where
  "assert_graphcis_context cb =
     lucheck_msg (m_render cb \<noteq> None) ''This call is legal only in a render pass.''"

text \<open>
  Modelled from the spec: \<^verbatim>\<open>assert_copy_context\<close> is defined in the header of the class,
  which is not part of the sources at hand. Section 4.4 and section 7 of the
  specification: the calls of the copy family are legal only in a copy pass, and a call
  in another state is an asserted precondition violation.
\<close>

definition assert_copy_context :: "CommandBuffer \<Rightarrow> fault + unit" where
  "assert_copy_context cb =
     lucheck_msg (m_blit cb \<noteq> None) ''This call is legal only in a copy pass.''"

definition set_index_buffer :: "IndexBufferView \<Rightarrow> CommandBuffer \<Rightarrow> fault + CommandBuffer" where
  "set_index_buffer view cb =
     (case assert_graphcis_context cb of
        Inl f \<Rightarrow> Inl f
      | Inr ok \<Rightarrow> Inr (cb\<lparr>m_index_buffer_view := view\<rparr>))"

definition set_graphics_descriptor_set :: "u32 \<Rightarrow> DescriptorSet \<Rightarrow> CommandBuffer \<Rightarrow> fault + CommandBuffer" where
  "set_graphics_descriptor_set index descriptor_set cb =
     (case lucheck_msg (index < 16)
             ''Invalid descriptor set index range. Descriptor set index range must be in [0, 16) on Metal.'' of
        Inl f \<Rightarrow> Inl f
      | Inr ok \<Rightarrow>
          (case assert_graphcis_context cb of
             Inl f \<Rightarrow> Inl f
           | Inr ok \<Rightarrow>
               (case m_render cb of
                  None \<Rightarrow> Inl null_dereference
                | Some enc \<Rightarrow>
                    Inr (cb\<lparr>mtl_calls := mtl_calls cb @
                           [setVertexBuffer enc (set_m_buffer descriptor_set) 0 (ucast index),
                            setFragmentBuffer enc (set_m_buffer descriptor_set) 0 (ucast index)]\<rparr>))))"

text \<open>
  In the check of \<^verbatim>\<open>set_graphics_descriptor_sets\<close> the sum
  \<^verbatim>\<open>start_index + descriptor_sets.size()\<close> is of type \<^verbatim>\<open>usize\<close>.
\<close>

definition set_graphics_descriptor_sets ::
  "u32 \<Rightarrow> DescriptorSet list \<Rightarrow> CommandBuffer \<Rightarrow> fault + CommandBuffer" where
  "set_graphics_descriptor_sets start_index descriptor_sets cb =
     (case lucheck_msg ((ucast start_index :: usize) + of_nat (length descriptor_sets) < 16)
             ''Invalid descriptor set index range. Descriptor set index range must be in [0, 16) on Metal.'' of
        Inl f \<Rightarrow> Inl f
      | Inr ok \<Rightarrow>
          (case assert_graphcis_context cb of
             Inl f \<Rightarrow> Inl f
           | Inr ok \<Rightarrow>
               (case m_render cb of
                  None \<Rightarrow> Inl null_dereference
                | Some enc \<Rightarrow>
                    (let buffers = map set_m_buffer descriptor_sets;
                         offsets = map (\<lambda>s. 0) descriptor_sets
                     in Inr (cb\<lparr>mtl_calls := mtl_calls cb @
                           [setVertexBuffers enc buffers offsets (ucast start_index)
                              (of_nat (length descriptor_sets)),
                            setFragmentBuffers enc buffers offsets (ucast start_index)
                              (of_nat (length descriptor_sets))]\<rparr>)))))"

text \<open>
  Modelled from the spec: \<^verbatim>\<open>encode_index_type\<close> is defined in a header that is not part
  of the sources at hand. Section 4.4 of the specification: the index stride, 2 or 4
  bytes, is determined by the index format; \<^verbatim>\<open>r16_uint\<close> is the 16-bit index type and
  \<^verbatim>\<open>r32_uint\<close> the 32-bit one.
\<close>

definition encode_index_type :: "Format \<Rightarrow> MTLIndexType" where
  "encode_index_type format = (if format = r16_uint then IndexTypeUInt16 else IndexTypeUInt32)"

text \<open>
  \<^verbatim>\<open>draw_indexed\<close> and \<^verbatim>\<open>draw_indexed_instanced\<close>. The parameter
  \<^verbatim>\<open>start_index_location\<close> is a \<^verbatim>\<open>u32\<close> and \<^verbatim>\<open>*=\<close> multiplies it in 32 bits; the product
  is widened to \<^verbatim>\<open>NS::UInteger\<close> afterwards. \<^verbatim>\<open>base_vertex_location\<close> is an \<^verbatim>\<open>i32\<close>,
  widened with its sign.
\<close>

definition draw_indexed :: "u32 \<Rightarrow> u32 \<Rightarrow> u32 \<Rightarrow> CommandBuffer \<Rightarrow> fault + CommandBuffer" where
  "draw_indexed index_count start_index_location base_vertex_location cb =
     (case assert_graphcis_context cb of
        Inl f \<Rightarrow> Inl f
      | Inr ok \<Rightarrow>
          (case ibv_buffer (m_index_buffer_view cb) of
             None \<Rightarrow> Inl null_dereference
           | Some buf \<Rightarrow>
               (let type = encode_index_type (ibv_format (m_index_buffer_view cb));
                    start_index_location' =
                      start_index_location * (if type = IndexTypeUInt16 then 2 else 4)
                in case m_render cb of
                     None \<Rightarrow> Inl null_dereference
                   | Some enc \<Rightarrow>
                       Inr (cb\<lparr>mtl_calls := mtl_calls cb @
                         [drawIndexedPrimitives enc
                            \<lparr>primitiveType = m_primitive_type cb, indexCount = ucast index_count,
                             indexType = type, indexBuffer = buf_m_buffer buf,
                             indexBufferOffset = ucast start_index_location',
                             instanceCount = 1, baseVertex = scast base_vertex_location,
                             baseInstance = 0\<rparr>]\<rparr>))))"

definition draw_indexed_instanced ::
  "u32 \<Rightarrow> u32 \<Rightarrow> u32 \<Rightarrow> u32 \<Rightarrow> u32 \<Rightarrow> CommandBuffer \<Rightarrow> fault + CommandBuffer" where
  "draw_indexed_instanced index_count_per_instance instance_count start_index_location
       base_vertex_location start_instance_location cb =
     (case assert_graphcis_context cb of
        Inl f \<Rightarrow> Inl f
      | Inr ok \<Rightarrow>
          (case ibv_buffer (m_index_buffer_view cb) of
             None \<Rightarrow> Inl null_dereference
           | Some buf \<Rightarrow>
               (let type = encode_index_type (ibv_format (m_index_buffer_view cb));
                    start_index_location' =
                      start_index_location * (if type = IndexTypeUInt16 then 2 else 4)
                in case m_render cb of
                     None \<Rightarrow> Inl null_dereference
                   | Some enc \<Rightarrow>
                       Inr (cb\<lparr>mtl_calls := mtl_calls cb @
                         [drawIndexedPrimitives enc
                            \<lparr>primitiveType = m_primitive_type cb,
                             indexCount = ucast index_count_per_instance,
                             indexType = type, indexBuffer = buf_m_buffer buf,
                             indexBufferOffset = ucast start_index_location',
                             instanceCount = ucast instance_count,
                             baseVertex = scast base_vertex_location,
                             baseInstance = ucast start_instance_location\<rparr>]\<rparr>))))"

text \<open>The byte offsets into the index buffer of the indexed draws made so far, in order.\<close>

fun index_buffer_offsets :: "mtl_call list \<Rightarrow> u64 list" where
  "index_buffer_offsets [] = []"
| "index_buffer_offsets (drawIndexedPrimitives enc args # calls) =
     indexBufferOffset args # index_buffer_offsets calls"
| "index_buffer_offsets (c # calls) = index_buffer_offsets calls"

definition end_render_pass :: "CommandBuffer \<Rightarrow> fault + CommandBuffer" where
  "end_render_pass cb =
     (case assert_graphcis_context cb of
        Inl f \<Rightarrow> Inl f
      | Inr ok \<Rightarrow>
          (case m_render cb of
             None \<Rightarrow> Inl null_dereference
           | Some enc \<Rightarrow> Inr (cb\<lparr>m_render := None, mtl_calls := mtl_calls cb @ [endEncoding enc]\<rparr>)))"

definition end_copy_pass :: "CommandBuffer \<Rightarrow> fault + CommandBuffer" where
  "end_copy_pass cb =
     (case assert_copy_context cb of
        Inl f \<Rightarrow> Inl f
      | Inr ok \<Rightarrow>
          (case m_blit cb of
             None \<Rightarrow> Inl null_dereference
           | Some enc \<Rightarrow> Inr (cb\<lparr>m_blit := None, mtl_calls := mtl_calls cb @ [endEncoding enc]\<rparr>)))"

text \<open>
  \<^verbatim>\<open>copy_resource\<close>: the buffer interpretation first, with its \<^verbatim>\<open>return\<close>; then the
  texture interpretation; nothing when neither pair of casts yields two objects.
\<close>

definition copy_resource :: "Resource \<Rightarrow> Resource \<Rightarrow> CommandBuffer \<Rightarrow> fault + CommandBuffer" where
  "copy_resource dst src cb =
     (case assert_copy_context cb of
        Inl f \<Rightarrow> Inl f
      | Inr ok \<Rightarrow>
          (case m_blit cb of
             None \<Rightarrow> Inl null_dereference
           | Some enc \<Rightarrow>
               (case (cast_object_Buffer dst, cast_object_Buffer src) of
                  (Some d, Some s) \<Rightarrow>
                    Inr (cb\<lparr>mtl_calls := mtl_calls cb @
                           [copyFromBuffer enc (buf_m_buffer s) 0 (buf_m_buffer d) 0
                              (min (buf_size d) (buf_size s))]\<rparr>)
                | _ \<Rightarrow>
                    (case (cast_object_Texture dst, cast_object_Texture src) of
                       (Some d, Some s) \<Rightarrow>
                         Inr (cb\<lparr>mtl_calls := mtl_calls cb @
                                [copyFromTexture enc (tex_m_texture s) (tex_m_texture d)]\<rparr>)
                     | _ \<Rightarrow> Inr cb))))"

text \<open>
  Modelled from the spec: \<^verbatim>\<open>BufferBarrier\<close> is declared in a header that is not part of
  the sources at hand. Section 3 of the specification: a barrier names a resource, the
  state before and the state after; a state is identified by a number.
\<close>

record BufferBarrier =
  bb_buffer :: Buffer
  bb_before :: nat
  bb_after :: nat

text \<open>
  Modelled from the spec: \<^verbatim>\<open>TextureBarrier\<close> is declared in a header that is not part of
  the sources at hand. Section 3 of the specification, as for a buffer barrier.
\<close>

record TextureBarrier =
  tb_texture :: Texture
  tb_before :: nat
  tb_after :: nat

text \<open>
  Modelled from the spec: the tracked state of a resource. Section 3 of the
  specification: the state recorded for a resource is updated to the after-state when a
  barrier is recorded. It is kept here in a map from the resource to its last recorded
  state; the Metal sources at hand show no member that holds it.
\<close>

type_synonym TrackedStates = "handle \<rightharpoonup> nat"

text \<open>
  \<^verbatim>\<open>CommandBuffer::resource_barrier\<close>: every statement of the body is commented out in
  the source, so the call returns with nothing changed.
\<close>

definition resource_barrier ::
  "BufferBarrier list \<Rightarrow> TextureBarrier list \<Rightarrow> CommandBuffer \<times> TrackedStates
     \<Rightarrow> CommandBuffer \<times> TrackedStates" where
  "resource_barrier buffer_barriers texture_barriers world = world"


section \<open>Concrete inputs\<close>

definition no_color_attachment :: ColorAttachment where
  "no_color_attachment = \<lparr>ca_texture = None, ca_mip_slice = 0, ca_array_slice = 0\<rparr>"

definition no_resolve_attachment :: ResolveAttachment where
  "no_resolve_attachment = \<lparr>ra_texture = None, ra_mip_slice = 0, ra_array_slice = 0\<rparr>"

definition no_depth_stencil_attachment :: DepthStencilAttachment where
  "no_depth_stencil_attachment = \<lparr>dsa_texture = None, dsa_mip_slice = 0, dsa_array_slice = 0\<rparr>"

definition texture_100x80 :: Texture where
  "texture_100x80 =
     \<lparr>tex_m_texture = 1, tex_width = 100, tex_height = 80, tex_gpuResourceID = 0x1000\<rparr>"

definition texture_50x40 :: Texture where
  "texture_50x40 =
     \<lparr>tex_m_texture = 2, tex_width = 50, tex_height = 40, tex_gpuResourceID = 0x2000\<rparr>"

definition color_on :: "Texture \<Rightarrow> ColorAttachment" where
  "color_on tex = \<lparr>ca_texture = Some tex, ca_mip_slice = 0, ca_array_slice = 0\<rparr>"

text \<open>
  A render pass with a 100 x 80 texture in colour slot 0, a 50 x 40 texture in colour
  slot 1, and nothing else bound.
\<close>

definition two_color_desc :: RenderPassDesc where
  "two_color_desc =
     \<lparr>color_attachments =
        [color_on texture_100x80, color_on texture_50x40, no_color_attachment,
         no_color_attachment, no_color_attachment, no_color_attachment,
         no_color_attachment, no_color_attachment],
      resolve_attachments =
        [no_resolve_attachment, no_resolve_attachment, no_resolve_attachment,
         no_resolve_attachment, no_resolve_attachment, no_resolve_attachment,
         no_resolve_attachment, no_resolve_attachment],
      depth_stencil_attachment = no_depth_stencil_attachment, array_size = 1, sample_count = 1\<rparr>"

definition buffer_100 :: Buffer where
  "buffer_100 = \<lparr>buf_m_buffer = 3, buf_size = 100, buf_gpuAddress = 0x10000\<rparr>"

definition buffer_64 :: Buffer where
  "buffer_64 = \<lparr>buf_m_buffer = 4, buf_size = 64, buf_gpuAddress = 0x20000\<rparr>"

text \<open>A command buffer after \<^verbatim>\<open>init\<close>, idle; and the same with a pass of each kind open.\<close>

definition idle_cb :: CommandBuffer where
  "idle_cb = new_CommandBuffer\<lparr>m_buffer := Some 20, mtl_calls := [commandBuffer]\<rparr>"

definition render_cb :: CommandBuffer where
  "render_cb = idle_cb\<lparr>m_render := Some 21,
     mtl_calls := [commandBuffer, renderCommandEncoder (render_pass_descriptor two_color_desc)]\<rparr>"

definition compute_cb :: CommandBuffer where
  "compute_cb = idle_cb\<lparr>m_compute := Some 22, mtl_calls := [commandBuffer, computeCommandEncoder]\<rparr>"

definition copy_cb :: CommandBuffer where
  "copy_cb = idle_cb\<lparr>m_blit := Some 23, mtl_calls := [commandBuffer, blitCommandEncoder]\<rparr>"

text \<open>The render-pass command buffer after \<^verbatim>\<open>set_index_buffer\<close> with an index format.\<close>

definition index_view :: "Format \<Rightarrow> IndexBufferView" where
  "index_view format =
     \<lparr>ibv_buffer = Some buffer_100, ibv_offset = 0, ibv_size = 100, ibv_format = format\<rparr>"

definition draw_cb :: "Format \<Rightarrow> CommandBuffer" where
  "draw_cb format = render_cb\<lparr>m_index_buffer_view := index_view format\<rparr>"

text \<open>
  A layout of five bindings (slots 0 to 4), an empty set of that layout, and two
  environments: one where every call into the device succeeds and one whose sampler
  factory answers \<^verbatim>\<open>nullptr\<close>.
\<close>

definition five_binding_layout :: DescriptorSetLayout where
  "five_binding_layout =
     \<lparr>m_bindings =
        [\<lparr>binding_type = uniform_buffer_view, binding_slot = 0, num_descs = 1\<rparr>,
         \<lparr>binding_type = read_buffer_view, binding_slot = 1, num_descs = 2\<rparr>,
         \<lparr>binding_type = read_texture_view, binding_slot = 2, num_descs = 1\<rparr>,
         \<lparr>binding_type = sampler, binding_slot = 3, num_descs = 1\<rparr>,
         \<lparr>binding_type = read_write_buffer_view, binding_slot = 4, num_descs = 1\<rparr>],
      m_argument_offsets = [0, 1, 3, 4, 5]\<rparr>"

definition empty_set :: DescriptorSet where
  "empty_set =
     \<lparr>m_layout = five_binding_layout, set_m_buffer = 30, data = (\<lambda>i. 0),
      m_resources = (\<lambda>b i. None), m_samplers = Map.empty\<rparr>"

definition plain_backend :: Backend where
  "plain_backend =
     \<lparr>bits_per_pixel = (\<lambda>format. 32),
      validate_texture_view_desc = (\<lambda>tex view. view),
      require_view_object = (\<lambda>tex view. False),
      get_texture_view = (\<lambda>tex view. Inr (tex_gpuResourceID tex)),
      newSamplerState = (\<lambda>desc. Some (50 + desc, of_nat desc))\<rparr>"

definition failing_sampler_backend :: Backend where
  "failing_sampler_backend = plain_backend\<lparr>newSamplerState := (\<lambda>desc. None)\<rparr>"

text \<open>
  Writes: a uniform buffer view with \<^verbatim>\<open>first_element = 2\<close> and \<^verbatim>\<open>element_size = 16\<close>; a
  raw read buffer view with \<^verbatim>\<open>first_element = 3\<close> and \<^verbatim>\<open>element_size = 16\<close>; a typed
  (\<^verbatim>\<open>r32_uint\<close>) read-write buffer view with \<^verbatim>\<open>first_element = 3\<close>; a sampler; and a
  write to slot 9, which the layout does not declare.
\<close>

definition uniform_write :: WriteDescriptorSet where
  "uniform_write =
     \<lparr>write_binding_slot = 0, write_first_array_index = 0, write_type = uniform_buffer_view,
      buffer_views = [\<lparr>bv_buffer = buffer_100, first_element = 2, element_count = 1,
                       element_size = 16, bv_format = unknown\<rparr>],
      texture_views = [], samplers = []\<rparr>"

definition raw_read_write :: WriteDescriptorSet where
  "raw_read_write =
     \<lparr>write_binding_slot = 1, write_first_array_index = 0, write_type = read_buffer_view,
      buffer_views = [\<lparr>bv_buffer = buffer_64, first_element = 3, element_count = 1,
                       element_size = 16, bv_format = unknown\<rparr>],
      texture_views = [], samplers = []\<rparr>"

definition typed_read_write :: WriteDescriptorSet where
  "typed_read_write =
     \<lparr>write_binding_slot = 4, write_first_array_index = 0, write_type = read_write_buffer_view,
      buffer_views = [\<lparr>bv_buffer = buffer_64, first_element = 3, element_count = 4,
                       element_size = 0, bv_format = r32_uint\<rparr>],
      texture_views = [], samplers = []\<rparr>"

definition sampler_write :: WriteDescriptorSet where
  "sampler_write =
     \<lparr>write_binding_slot = 3, write_first_array_index = 0, write_type = sampler,
      buffer_views = [], texture_views = [], samplers = [5]\<rparr>"

definition unknown_slot_write :: WriteDescriptorSet where
  "unknown_slot_write =
     \<lparr>write_binding_slot = 9, write_first_array_index = 0, write_type = uniform_buffer_view,
      buffer_views = [\<lparr>bv_buffer = buffer_100, first_element = 0, element_count = 1,
                       element_size = 16, bv_format = unknown\<rparr>],
      texture_views = [], samplers = []\<rparr>"


section \<open>Theorems\<close>

lemmas fixtures =
  no_color_attachment_def no_resolve_attachment_def no_depth_stencil_attachment_def
  texture_100x80_def texture_50x40_def color_on_def two_color_desc_def
  new_CommandBuffer_def idle_cb_def render_cb_def compute_cb_def copy_cb_def
  buffer_100_def buffer_64_def index_view_def draw_cb_def five_binding_layout_def
  empty_set_def plain_backend_def failing_sampler_backend_def uniform_write_def
  raw_read_write_def typed_read_write_def sampler_write_def unknown_slot_write_def

subsection \<open>C8: deny-flags of a resource heap\<close>

lemma heap_flags_cases:
  "Flags (heap_desc_of desc) =
     (if buffer \<in> usages desc then 0 else 0x4)
     OR (if texture_rt_ds \<in> usages desc then 0 else 0x40)
     OR (if texture_non_rt_ds \<in> usages desc then 0 else 0x80)"
  by (simp add: heap_desc_of_def test_flags_def Let_def D3D12_HEAP_FLAG_DENY_BUFFERS_def
      D3D12_HEAP_FLAG_DENY_RT_DS_TEXTURES_def D3D12_HEAP_FLAG_DENY_NON_RT_DS_TEXTURES_def)

text \<open>
  C8. For every usage set, the heap description handed to \<^verbatim>\<open>CreateHeap\<close> contains
  \<^verbatim>\<open>D3D12_HEAP_FLAG_DENY_BUFFERS\<close> exactly when the \<^verbatim>\<open>buffer\<close> usage is absent,
  \<^verbatim>\<open>D3D12_HEAP_FLAG_DENY_RT_DS_TEXTURES\<close> exactly when \<^verbatim>\<open>texture_rt_ds\<close> is absent, and
  \<^verbatim>\<open>D3D12_HEAP_FLAG_DENY_NON_RT_DS_TEXTURES\<close> exactly when \<^verbatim>\<open>texture_non_rt_ds\<close> is
  absent; and that description is the one the heap is created from.
\<close>

theorem heap_deny_flags:
  "has_heap_flag (heap_desc_of desc) D3D12_HEAP_FLAG_DENY_BUFFERS
     = (\<not> test_flags (usages desc) buffer)
   \<and> has_heap_flag (heap_desc_of desc) D3D12_HEAP_FLAG_DENY_RT_DS_TEXTURES
     = (\<not> test_flags (usages desc) texture_rt_ds)
   \<and> has_heap_flag (heap_desc_of desc) D3D12_HEAP_FLAG_DENY_NON_RT_DS_TEXTURES
     = (\<not> test_flags (usages desc) texture_non_rt_ds)
   \<and> ResourceHeap_init CreateHeap desc = CreateHeap (heap_desc_of desc)"
  by (simp add: has_heap_flag_def heap_flags_cases test_flags_def ResourceHeap_init_def
      D3D12_HEAP_FLAG_DENY_BUFFERS_def D3D12_HEAP_FLAG_DENY_RT_DS_TEXTURES_def
      D3D12_HEAP_FLAG_DENY_NON_RT_DS_TEXTURES_def split: sum.split)


subsection \<open>How the concrete command buffers arise\<close>

lemma idle_cb_by_init: "init (Some 20) 0 new_CommandBuffer = (Inr (), idle_cb)"
  by (simp add: init_def fixtures)

lemma render_cb_by_begin: "begin_render_pass 21 two_color_desc idle_cb = Inr render_cb"
  by (simp add: begin_render_pass_def lucheck_msg_def fixtures)

lemma compute_cb_by_begin: "begin_compute_pass 22 idle_cb = Inr compute_cb"
  by (simp add: begin_compute_pass_def lucheck_msg_def fixtures)

lemma copy_cb_by_begin: "begin_copy_pass 23 idle_cb = Inr copy_cb"
  by (simp add: begin_copy_pass_def lucheck_msg_def fixtures)


subsection \<open>C1: a pass is opened only when none is open\<close>

text \<open>
  C1. For every command buffer and each of \<^verbatim>\<open>begin_render_pass\<close>, \<^verbatim>\<open>begin_compute_pass\<close>
  and \<^verbatim>\<open>begin_copy_pass\<close>: when a render, compute or copy pass is open, the call ends in
  the failed assertion of its pass-open check; when no pass is open, the call returns,
  and the pass it opens is the only open pass, with the encoder stored.
\<close>

theorem begin_pass_only_from_idle:
  "(open_passes cb \<noteq> [] \<longrightarrow>
       begin_render_pass enc desc cb =
         Inl (assert_fail ''begin_render_pass can only be called when no other pass is open.'')
     \<and> begin_compute_pass enc cb =
         Inl (assert_fail ''begin_compute_pass can only be called when no other pass is open.'')
     \<and> begin_copy_pass enc cb =
         Inl (assert_fail ''begin_copy_pass can only be called when no other pass is open.''))
   \<and> (open_passes cb = [] \<longrightarrow>
       map_sum id open_passes (begin_render_pass enc desc cb) = Inr [RenderPass]
     \<and> map_sum id m_render (begin_render_pass enc desc cb) = Inr (Some enc)
     \<and> map_sum id open_passes (begin_compute_pass enc cb) = Inr [ComputePass]
     \<and> map_sum id m_compute (begin_compute_pass enc cb) = Inr (Some enc)
     \<and> map_sum id open_passes (begin_copy_pass enc cb) = Inr [CopyPass]
     \<and> map_sum id m_blit (begin_copy_pass enc cb) = Inr (Some enc))"
  by (simp add: open_passes_def begin_render_pass_def begin_compute_pass_def begin_copy_pass_def
      lucheck_msg_def split: if_splits)

theorem begin_pass_only_from_idle_witness:
  "open_passes compute_cb \<noteq> []
   \<and> begin_render_pass 8 two_color_desc compute_cb =
         Inl (assert_fail ''begin_render_pass can only be called when no other pass is open.'')
   \<and> begin_compute_pass 8 compute_cb =
         Inl (assert_fail ''begin_compute_pass can only be called when no other pass is open.'')
   \<and> begin_copy_pass 8 compute_cb =
         Inl (assert_fail ''begin_copy_pass can only be called when no other pass is open.'')
   \<and> open_passes idle_cb = []
   \<and> map_sum id open_passes (begin_render_pass 8 two_color_desc idle_cb) = Inr [RenderPass]
   \<and> map_sum id open_passes (begin_compute_pass 8 idle_cb) = Inr [ComputePass]
   \<and> map_sum id open_passes (begin_copy_pass 8 idle_cb) = Inr [CopyPass]"
  using begin_pass_only_from_idle [of compute_cb 8 two_color_desc]
    begin_pass_only_from_idle [of idle_cb 8 two_color_desc]
  by (simp add: open_passes_def fixtures)


subsection \<open>C5: the size of the render target\<close>

text \<open>From the idle state the pass is opened with the descriptor built from \<open>desc\<close>.\<close>

lemma begin_render_pass_descriptor:
  "open_passes cb = [] \<Longrightarrow>
     begin_render_pass enc desc cb =
       Inr (cb\<lparr>m_render := Some enc,
              mtl_calls := mtl_calls cb @ [renderCommandEncoder (render_pass_descriptor desc)]\<rparr>)"
  by (simp add: begin_render_pass_def lucheck_msg_def open_passes_def split: if_splits)




lemma draw_cb_by_set_index_buffer:
  "set_index_buffer (index_view format) render_cb = Inr (draw_cb format)"
  by (simp add: set_index_buffer_def assert_graphcis_context_def lucheck_msg_def fixtures)


subsection \<open>C4: \<^verbatim>\<open>copy_resource\<close>\<close>

text \<open>
  C4. In an open copy pass, \<^verbatim>\<open>copy_resource(dst, src)\<close> on two buffers makes one
  \<^verbatim>\<open>copyFromBuffer\<close> call, from offset 0 of the source to offset 0 of the destination,
  of the smaller of the two sizes; on two textures it makes one whole-texture
  \<^verbatim>\<open>copyFromTexture\<close> call; on a buffer and a texture, either way round, it makes no call
  and changes nothing.
\<close>

theorem copy_resource_dispatch:
  "m_blit cb = Some enc \<Longrightarrow>
     copy_resource (BufferObject d) (BufferObject s) cb =
       Inr (cb\<lparr>mtl_calls := mtl_calls cb @
              [copyFromBuffer enc (buf_m_buffer s) 0 (buf_m_buffer d) 0
                 (min (buf_size d) (buf_size s))]\<rparr>)
   \<and> copy_resource (TextureObject dt) (TextureObject st) cb =
       Inr (cb\<lparr>mtl_calls := mtl_calls cb @
              [copyFromTexture enc (tex_m_texture st) (tex_m_texture dt)]\<rparr>)
   \<and> copy_resource (BufferObject d) (TextureObject st) cb = Inr cb
   \<and> copy_resource (TextureObject dt) (BufferObject s) cb = Inr cb"
  by (simp add: copy_resource_def assert_copy_context_def lucheck_msg_def)

text \<open>Buffers of 100 and 64 bytes: 64 bytes are copied.\<close>

theorem copy_resource_dispatch_witness:
  "m_blit copy_cb = Some 23
   \<and> copy_resource (BufferObject buffer_100) (BufferObject buffer_64) copy_cb =
       Inr (copy_cb\<lparr>mtl_calls := mtl_calls copy_cb @ [copyFromBuffer 23 4 0 3 0 64]\<rparr>)
   \<and> copy_resource (BufferObject buffer_64) (BufferObject buffer_100) copy_cb =
       Inr (copy_cb\<lparr>mtl_calls := mtl_calls copy_cb @ [copyFromBuffer 23 3 0 4 0 64]\<rparr>)
   \<and> copy_resource (TextureObject texture_100x80) (TextureObject texture_50x40) copy_cb =
       Inr (copy_cb\<lparr>mtl_calls := mtl_calls copy_cb @ [copyFromTexture 23 2 1]\<rparr>)
   \<and> copy_resource (BufferObject buffer_100) (TextureObject texture_50x40) copy_cb = Inr copy_cb
   \<and> copy_resource (TextureObject texture_100x80) (BufferObject buffer_64) copy_cb = Inr copy_cb"
  using copy_resource_dispatch [of copy_cb 23 buffer_100 buffer_64 texture_100x80 texture_50x40]
    copy_resource_dispatch [of copy_cb 23 buffer_64 buffer_100 texture_100x80 texture_50x40]
  by (simp add: fixtures)


subsection \<open>C9: \<^verbatim>\<open>reset\<close>\<close>

text \<open>
  C9, as the code has it. After \<^verbatim>\<open>reset()\<close> returns successfully, the list of attached
  objects is empty and the three encoder pointers are what they were: the open passes
  after the call are the open passes before it (so the command buffer is idle exactly
  when it was idle before).
\<close>

theorem reset_clears_attached_objects:
  "reset queue_buffer cb = (Inr (), cb') \<Longrightarrow>
     m_objs cb' = [] \<and> m_render cb' = m_render cb \<and> m_compute cb' = m_compute cb
     \<and> m_blit cb' = m_blit cb \<and> open_passes cb' = open_passes cb"
  by (auto simp: reset_def open_passes_def Let_def split: if_splits)

theorem reset_clears_attached_objects_witness:
  "reset (Some 40) (attach_device_object 9 idle_cb)
     = (Inr (), idle_cb\<lparr>m_buffer := Some 40, mtl_calls := mtl_calls idle_cb @ [commandBuffer]\<rparr>)
   \<and> m_objs (attach_device_object 9 idle_cb) = [9]
   \<and> m_objs (idle_cb\<lparr>m_buffer := Some 40, mtl_calls := mtl_calls idle_cb @ [commandBuffer]\<rparr>) = []
   \<and> open_passes (idle_cb\<lparr>m_buffer := Some 40, mtl_calls := mtl_calls idle_cb @ [commandBuffer]\<rparr>)
       = []"
  using reset_clears_attached_objects [of "Some 40" "attach_device_object 9 idle_cb"
      "idle_cb\<lparr>m_buffer := Some 40, mtl_calls := mtl_calls idle_cb @ [commandBuffer]\<rparr>"]
  by (simp add: reset_def attach_device_object_def open_passes_def fixtures Let_def)

text \<open>
  C9 as stated fails: a command buffer with a render pass open and one object attached
  is reset successfully; the attached objects are gone, and the render pass is still
  open.
\<close>

theorem reset_idle_counterexample:
  "begin_render_pass 21 two_color_desc idle_cb = Inr render_cb
   \<and> fst (reset (Some 40) (attach_device_object 9 render_cb)) = Inr ()
   \<and> m_objs (snd (reset (Some 40) (attach_device_object 9 render_cb))) = []
   \<and> m_render (snd (reset (Some 40) (attach_device_object 9 render_cb))) = Some 21
   \<and> open_passes (snd (reset (Some 40) (attach_device_object 9 render_cb))) = [RenderPass]
   \<and> open_passes (snd (reset (Some 40) (attach_device_object 9 render_cb))) \<noteq> []"
  by (simp add: reset_def attach_device_object_def open_passes_def begin_render_pass_def
      lucheck_msg_def fixtures Let_def)


subsection \<open>C2: \<^verbatim>\<open>resource_barrier\<close>\<close>

text \<open>
  C2, as the code has it. For all lists of buffer and texture barriers,
  \<^verbatim>\<open>resource_barrier\<close> is a no-op: the command buffer, the calls made into Metal and the
  tracked state of every resource are what they were before the call, whether or not a
  compute pass is open.
\<close>

theorem resource_barrier_no_op:
  "resource_barrier buffer_barriers texture_barriers (cb, tracked) = (cb, tracked)
   \<and> mtl_calls (fst (resource_barrier buffer_barriers texture_barriers (cb, tracked)))
       = mtl_calls cb
   \<and> snd (resource_barrier buffer_barriers texture_barriers (cb, tracked)) = tracked"
  by (simp add: resource_barrier_def)

text \<open>
  C2 as stated fails: with a compute pass open (encoder 22) and a barrier that takes
  the buffer with handle 3 from state 1 to state 2, no \<^verbatim>\<open>memoryBarrier\<close> call is made and
  the state recorded for the buffer is still 1.
\<close>

theorem resource_barrier_counterexample:
  "open_passes compute_cb = [ComputePass]
   \<and> memoryBarrier 22 [3] \<notin> set (mtl_calls (fst (resource_barrier
        [\<lparr>bb_buffer = buffer_100, bb_before = 1, bb_after = 2\<rparr>] [] (compute_cb, [3 \<mapsto> 1]))))
   \<and> mtl_calls (fst (resource_barrier
        [\<lparr>bb_buffer = buffer_100, bb_before = 1, bb_after = 2\<rparr>] [] (compute_cb, [3 \<mapsto> 1])))
       = [commandBuffer, computeCommandEncoder]
   \<and> snd (resource_barrier
        [\<lparr>bb_buffer = buffer_100, bb_before = 1, bb_after = 2\<rparr>] [] (compute_cb, [3 \<mapsto> 1])) 3
       = Some 1
   \<and> snd (resource_barrier
        [\<lparr>bb_buffer = buffer_100, bb_before = 1, bb_after = 2\<rparr>] [] (compute_cb, [3 \<mapsto> 1])) 3
       \<noteq> Some 2"
  by (simp add: resource_barrier_def open_passes_def fixtures)


subsection \<open>C3: the byte offset of an indexed draw\<close>

lemma unat_ucast_u32_u64: "unat (ucast (w :: u32) :: u64) = unat w"
proof -
  have "unat w < 2 ^ 32" using unsigned_less [of w, where ?'a = nat] by simp
  then have "unat w < 2 ^ 64" by simp
  then show ?thesis by (simp add: unsigned_ucast_eq take_bit_nat_eq_self)
qed





text \<open>The example of the specification: index 10 gives byte 40 with 32-bit indices, 20 with 16-bit ones.\<close>

lemma draw_indexed_example:
  "map_sum id (\<lambda>cb'. index_buffer_offsets (mtl_calls cb'))
       (draw_indexed 3 10 0 (draw_cb r32_uint)) = Inr [40]
   \<and> map_sum id (\<lambda>cb'. index_buffer_offsets (mtl_calls cb'))
       (draw_indexed 3 10 0 (draw_cb r16_uint)) = Inr [20]"
  by (simp add: draw_indexed_def assert_graphcis_context_def lucheck_msg_def encode_index_type_def
      fixtures Let_def)




text \<open>
  Beyond every view: a start index whose byte offset does not fit 32 bits addresses no
  index of any view, and the 32-bit product wraps around there.
\<close>

lemma draw_indexed_offset_beyond_view:
  "map_sum id (\<lambda>cb'. index_buffer_offsets (mtl_calls cb'))
       (draw_indexed 3 0x40000000 0 (draw_cb r32_uint)) = Inr [0]
   \<and> map_sum id (\<lambda>cb'. index_buffer_offsets (mtl_calls cb'))
       (draw_indexed_instanced 3 1 0x40000000 0 0 (draw_cb r32_uint)) = Inr [0]
   \<and> map_sum id (\<lambda>cb'. index_buffer_offsets (mtl_calls cb'))
       (draw_indexed 3 0x80000000 0 (draw_cb r16_uint)) = Inr [0]"
  by (simp add: draw_indexed_def draw_indexed_instanced_def assert_graphcis_context_def
      lucheck_msg_def encode_index_type_def fixtures Let_def)


subsection \<open>C10: the index range of the two descriptor-set entry points\<close>

text \<open>The range check of \<^verbatim>\<open>set_graphics_descriptor_sets\<close> holds when the sum is below 16.\<close>

lemma descriptor_sets_range_check:
  fixes start_index :: u32
  assumes "n < 2 ^ 32"
  shows "((ucast start_index :: usize) + of_nat n < 16) = (unat start_index + n < 16)"
proof -
  have s: "unat start_index < 2 ^ 32"
    using unsigned_less [of start_index, where ?'a = nat] by simp
  have "unat ((ucast start_index :: usize) + of_nat n) = (unat start_index + n) mod 2 ^ 64"
    by (simp add: unat_word_ariths unat_ucast_u32_u64 unat_of_nat mod_add_right_eq)
  also have "\<dots> = unat start_index + n"
    using s assms by simp
  finally show ?thesis
    by (simp add: word_less_nat_alt)
qed

text \<open>
  C10 at the last index. In a render pass, binding one set at index 15 through
  \<^verbatim>\<open>set_graphics_descriptor_sets\<close>, or sixteen sets from index 0, ends in the failed range
  assertion, although every index bound lies in [0, 16); \<^verbatim>\<open>set_graphics_descriptor_set\<close>
  binds the same set at index 15, and the span entry point accepts index 14.
\<close>

theorem descriptor_sets_range_off_by_one:
  "set_graphics_descriptor_sets 15 [empty_set] render_cb =
     Inl (assert_fail ''Invalid descriptor set index range. Descriptor set index range must be in [0, 16) on Metal.'')
   \<and> set_graphics_descriptor_sets 0 (replicate 16 empty_set) render_cb =
     Inl (assert_fail ''Invalid descriptor set index range. Descriptor set index range must be in [0, 16) on Metal.'')
   \<and> set_graphics_descriptor_set 15 empty_set render_cb =
     Inr (render_cb\<lparr>mtl_calls := mtl_calls render_cb @
            [setVertexBuffer 21 30 0 15, setFragmentBuffer 21 30 0 15]\<rparr>)
   \<and> set_graphics_descriptor_sets 14 [empty_set] render_cb =
     Inr (render_cb\<lparr>mtl_calls := mtl_calls render_cb @
            [setVertexBuffers 21 [30] [0] 14 1, setFragmentBuffers 21 [30] [0] 14 1]\<rparr>)"
  by (simp add: set_graphics_descriptor_sets_def set_graphics_descriptor_set_def
      assert_graphcis_context_def lucheck_msg_def fixtures Let_def)


subsection \<open>The loops of \<^verbatim>\<open>update_descriptors\<close>\<close>

lemma find_binding_index_le: "find_binding_index bs slot \<le> length bs"
  by (induction bs) simp_all

lemma find_binding_index_unresolved:
  "(find_binding_index bs slot = length bs) = (slot \<notin> binding_slot ` set bs)"
  using find_binding_index_le [of _ slot] by (induction bs) auto

lemma find_binding_index_first:
  "find_binding_index bs slot < length bs \<Longrightarrow>
     binding_slot (bs ! find_binding_index bs slot) = slot
     \<and> (\<forall>k < find_binding_index bs slot. binding_slot (bs ! k) \<noteq> slot)"
proof (induction bs)
  case Nil
  then show ?case by simp
next
  case (Cons b bs)
  show ?case
  proof (cases "slot = binding_slot b")
    case True
    then show ?thesis by simp
  next
    case False
    with Cons show ?thesis by (auto simp: nth_Cons split: nat.split)
  qed
qed

lemma write_buffer_views_layout:
  "m_layout (write_buffer_views off ao bi fai i views st) = m_layout st"
  by (induction views arbitrary: i st) simp_all

lemma write_buffer_views_data:
  "data (write_buffer_views off ao bi fai i views st) k =
     (if ao + i \<le> k \<and> k < ao + i + length views
      then buf_gpuAddress (bv_buffer (views ! (k - (ao + i)))) + off (views ! (k - (ao + i)))
      else data st k)"
proof (induction views arbitrary: i st)
  case Nil
  show ?case by auto
next
  case (Cons view views)
  show ?case
    by (auto simp: Cons.IH nth_Cons' Suc_diff_le)
qed

lemma write_texture_views_layout:
  "m_layout (snd (write_texture_views env ao bi fai i views st)) = m_layout st"
  by (induction views arbitrary: i st) (simp_all add: Let_def split: sum.split)

lemma write_samplers_layout:
  "m_layout (snd (write_samplers env ao slot fai i views st)) = m_layout st"
  by (induction views arbitrary: i st) (simp_all split: option.split)

lemma apply_write_layout: "m_layout (snd (apply_write env w st)) = m_layout st"
  by (simp add: apply_write_def set_error_def Let_def write_buffer_views_layout write_texture_views_layout
      write_samplers_layout split: DescriptorType.split)

lemma update_descriptors_layout: "m_layout (snd (update_descriptors env ws st)) = m_layout st"
proof (induction ws arbitrary: st)
  case Nil
  show ?case by simp
next
  case (Cons w ws)
  obtain r st' where aw: "apply_write env w st = (r, st')" by (cases "apply_write env w st")
  have "m_layout st' = m_layout st" using apply_write_layout [of env w st] by (simp add: aw)
  then show ?case by (cases r) (simp_all add: aw Cons.IH)
qed

lemma write_texture_views_error:
  "fst (write_texture_views env ao bi fai i views st) = Inl e \<Longrightarrow>
     \<exists>v \<in> set views. get_texture_view env (tv_texture v)
                        (validate_texture_view_desc env (tv_texture v) v) = Inl e"
  by (induction views arbitrary: i st) (auto simp: Let_def split: sum.splits if_splits)

lemma write_samplers_error:
  "fst (write_samplers env ao slot fai i views st) = Inl e \<Longrightarrow> e = bad_platform_call"
  by (induction views arbitrary: i st) (auto split: option.splits)

lemma apply_write_unresolved:
  "write_binding_slot w \<notin> slots_of st \<Longrightarrow> apply_write env w st = (Inl bad_arguments, st)"
  by (simp add: apply_write_def set_error_def slots_of_def find_binding_index_unresolved Let_def)

lemma apply_write_error:
  assumes "write_binding_slot w \<in> slots_of st" "fst (apply_write env w st) = Inl e"
  shows "e = bad_platform_call \<or>
         (\<exists>v \<in> set (texture_views w). get_texture_view env (tv_texture v)
                        (validate_texture_view_desc env (tv_texture v) v) = Inl e)"
proof -
  have "find_binding_index (m_bindings (m_layout st)) (write_binding_slot w)
          \<noteq> length (m_bindings (m_layout st))"
    using assms(1) by (simp add: find_binding_index_unresolved slots_of_def)
  with assms(2) show ?thesis
    by (cases "write_type w")
       (auto simp: apply_write_def set_error_def Let_def dest: write_texture_views_error write_samplers_error)
qed

lemma update_descriptors_append:
  "update_descriptors env (ws @ ws') st =
     (case update_descriptors env ws st of
        (Inl err, st') \<Rightarrow> (Inl err, st')
      | (Inr ok, st') \<Rightarrow> update_descriptors env ws' st')"
proof (induction ws arbitrary: st)
  case Nil
  show ?case by simp
next
  case (Cons w ws)
  obtain r st' where aw: "apply_write env w st = (r, st')" by (cases "apply_write env w st")
  show ?case by (cases r) (simp_all add: aw Cons.IH)
qed

lemma update_descriptors_error:
  assumes "\<forall>w \<in> set ws. write_binding_slot w \<in> slots_of st"
    and "fst (update_descriptors env ws st) = Inl e"
  shows "e = bad_platform_call \<or>
         (\<exists>w \<in> set ws. \<exists>v \<in> set (texture_views w). get_texture_view env (tv_texture v)
                        (validate_texture_view_desc env (tv_texture v) v) = Inl e)"
  using assms
proof (induction ws arbitrary: st)
  case Nil
  then show ?case by simp
next
  case (Cons w ws)
  obtain r st' where aw: "apply_write env w st = (r, st')" by (cases "apply_write env w st")
  have lay: "slots_of st' = slots_of st"
    using apply_write_layout [of env w st] by (simp add: aw slots_of_def)
  show ?case
  proof (cases r)
    case (Inl err)
    with Cons.prems aw have "fst (apply_write env w st) = Inl e" by simp
    with Cons.prems(1) apply_write_error [of w st env e] show ?thesis by auto
  next
    case (Inr ok)
    with Cons.prems aw have "fst (update_descriptors env ws st') = Inl e" by simp
    moreover from Cons.prems(1) lay have "\<forall>w \<in> set ws. write_binding_slot w \<in> slots_of st'" by simp
    ultimately show ?thesis using Cons.IH [of st'] by auto
  qed
qed

lemma update_descriptors_unresolved:
  assumes "update_descriptors env pre st = (Inr (), st1)"
    and "write_binding_slot w \<notin> slots_of st"
  shows "update_descriptors env (pre @ w # post) st = (Inl bad_arguments, st1)"
proof -
  have "slots_of st1 = slots_of st"
    using update_descriptors_layout [of env pre st] assms(1) by (simp add: slots_of_def)
  with assms(2) have "apply_write env w st1 = (Inl bad_arguments, st1)"
    by (simp add: apply_write_unresolved)
  with assms(1) show ?thesis by (simp add: update_descriptors_append)
qed

lemma find_binding_index_takeWhile:
  "find_binding_index bs slot = length (takeWhile (\<lambda>b. binding_slot b \<noteq> slot) bs)"
  by (induction bs) simp_all


subsection \<open>C6: the address written for a buffer view\<close>

lemma apply_write_buffer_data:
  assumes "write_binding_slot w \<in> slots_of st"
    and "write_type w \<in> {uniform_buffer_view, read_buffer_view, read_write_buffer_view}"
    and "j < length (buffer_views w)"
  shows "fst (apply_write env w st) = Inr ()
     \<and> data (snd (apply_write env w st)) (argument_slot st w j) =
         buf_gpuAddress (bv_buffer (buffer_views w ! j))
         + (if write_type w = uniform_buffer_view then uniform_data_offset (buffer_views w ! j)
            else typed_data_offset env (buffer_views w ! j))"
proof -
  have "find_binding_index (m_bindings (m_layout st)) (write_binding_slot w)
          \<noteq> length (m_bindings (m_layout st))"
    using assms(1) by (simp add: find_binding_index_unresolved slots_of_def)
  with assms(2,3) show ?thesis
    by (auto simp: apply_write_def set_error_def Let_def write_buffer_views_data argument_slot_def)
qed

text \<open>
  Where the number of bits per pixel is a whole number of bytes and the product fits 64
  bits, the typed offset of the code is \<^verbatim>\<open>first_element * (bits_per_pixel(format) / 8)\<close>.
\<close>

lemma typed_offset_whole_bytes:
  fixes bpp first :: u64
  assumes "8 dvd unat bpp" and "unat bpp * unat first < 2 ^ 64"
  shows "(bpp * first) div 8 = first * (bpp div 8)"
proof -
  obtain k where k: "unat bpp = 8 * k" using assms(1) by (rule dvdE)
  have a: "unat (bpp * first) = unat bpp * unat first"
    using assms(2) by (simp add: unat_mult_lem [THEN iffD1])
  have b: "unat ((bpp * first) div 8) = k * unat first"
    by (simp add: unat_div a k)
  have c: "unat (bpp div 8) = k"
    by (simp add: unat_div k)
  have le: "unat first * k \<le> unat bpp * unat first" by (simp add: k)
  have "unat first * k < 2 ^ 64" by (rule le_less_trans [OF le assms(2)])
  then have "unat first * unat (bpp div 8) < 2 ^ 64" by (simp only: c)
  then have e: "unat (first * (bpp div 8)) = unat first * k"
    by (simp add: unat_mult_lem [THEN iffD1] c)
  show ?thesis by (simp add: word_unat_eq_iff b e mult.commute)
qed

text \<open>
  C6, as the code has it. A write of a buffer type whose slot the layout declares is
  processed without error, and the word written into the argument slot of its entry
  \<open>j\<close> is the GPU address of the buffer plus: \<^verbatim>\<open>first_element\<close> itself for a
  \<^verbatim>\<open>uniform_buffer_view\<close>; for a \<^verbatim>\<open>read_buffer_view\<close> or \<^verbatim>\<open>read_write_buffer_view\<close>,
  \<^verbatim>\<open>element_size * first_element\<close> when the format is \<^verbatim>\<open>unknown\<close> and
  \<^verbatim>\<open>bits_per_pixel(format) * first_element / 8\<close> otherwise (64-bit arithmetic).
\<close>

theorem buffer_descriptor_address:
  assumes "write_binding_slot w \<in> slots_of st"
    and "write_type w \<in> {uniform_buffer_view, read_buffer_view, read_write_buffer_view}"
    and "j < length (buffer_views w)"
  shows "fst (apply_write env w st) = Inr ()
     \<and> data (snd (apply_write env w st)) (argument_slot st w j) =
         buf_gpuAddress (bv_buffer (buffer_views w ! j))
         + (if write_type w = uniform_buffer_view then first_element (buffer_views w ! j)
            else if bv_format (buffer_views w ! j) = unknown
              then ucast (element_size (buffer_views w ! j)) * first_element (buffer_views w ! j)
            else (bits_per_pixel env (bv_format (buffer_views w ! j))
                    * first_element (buffer_views w ! j)) div 8)"
  using apply_write_buffer_data [OF assms, of env]
  by (simp add: uniform_data_offset_def typed_data_offset_def)

theorem buffer_descriptor_address_witness:
  "write_binding_slot uniform_write \<in> slots_of empty_set
   \<and> write_type uniform_write \<in> {uniform_buffer_view, read_buffer_view, read_write_buffer_view}
   \<and> 0 < length (buffer_views uniform_write)
   \<and> argument_slot empty_set uniform_write 0 = 0
   \<and> fst (apply_write plain_backend uniform_write empty_set) = Inr ()
   \<and> data (snd (apply_write plain_backend uniform_write empty_set)) 0 = 0x10000 + 2
   \<and> write_binding_slot raw_read_write \<in> slots_of empty_set
   \<and> write_type raw_read_write \<in> {uniform_buffer_view, read_buffer_view, read_write_buffer_view}
   \<and> 0 < length (buffer_views raw_read_write)
   \<and> argument_slot empty_set raw_read_write 0 = 1
   \<and> data (snd (apply_write plain_backend raw_read_write empty_set)) 1 = 0x20000 + 16 * 3
   \<and> write_binding_slot typed_read_write \<in> slots_of empty_set
   \<and> write_type typed_read_write \<in> {uniform_buffer_view, read_buffer_view, read_write_buffer_view}
   \<and> 0 < length (buffer_views typed_read_write)
   \<and> argument_slot empty_set typed_read_write 0 = 5
   \<and> data (snd (apply_write plain_backend typed_read_write empty_set)) 5 = 0x20000 + 12"
  using buffer_descriptor_address [of uniform_write empty_set 0 plain_backend]
    buffer_descriptor_address [of raw_read_write empty_set 0 plain_backend]
    buffer_descriptor_address [of typed_read_write empty_set 0 plain_backend]
  by (simp add: slots_of_def argument_slot_def argument_offset_of_def fixtures)

text \<open>
  C6 as stated fails for a uniform buffer view: with \<^verbatim>\<open>first_element = 2\<close>,
  \<^verbatim>\<open>element_size = 16\<close> and format \<^verbatim>\<open>unknown\<close> on a buffer at address 0x10000, the word
  written is 0x10002, not 0x10000 + 2 * 16.
\<close>

theorem uniform_buffer_address_counterexample:
  "write_type uniform_write = uniform_buffer_view
   \<and> bv_format (buffer_views uniform_write ! 0) = unknown
   \<and> first_element (buffer_views uniform_write ! 0) = 2
   \<and> element_size (buffer_views uniform_write ! 0) = 16
   \<and> buf_gpuAddress (bv_buffer (buffer_views uniform_write ! 0)) = 0x10000
   \<and> fst (update_descriptors plain_backend [uniform_write] empty_set) = Inr ()
   \<and> data (snd (update_descriptors plain_backend [uniform_write] empty_set)) 0 = 0x10002
   \<and> data (snd (update_descriptors plain_backend [uniform_write] empty_set)) 0 \<noteq> 0x10000 + 2 * 16"
  by (simp add: apply_write_def set_error_def argument_offset_of_def uniform_data_offset_def fixtures Let_def)


subsection \<open>C7: slots that the layout does not declare\<close>

lemma update_descriptors_failed_prefix:
  "update_descriptors env pre st = (Inl err, st1) \<Longrightarrow>
     update_descriptors env (pre @ post) st = (Inl err, st1)"
  by (simp add: update_descriptors_append)

text \<open>
  C7, as the code has it. The scan stops at the first binding record of the slot, and
  runs to the end of the records exactly when no record has the slot. When a write
  names a slot that no record has and the writes before it were processed without
  error, \<^verbatim>\<open>update_descriptors\<close> returns \<^verbatim>\<open>bad_arguments\<close> and leaves the set as those
  earlier writes left it: neither that write nor a later one is processed. When the
  writes up to some point fail, the call returns their error, with the set as they left
  it, whatever writes follow. When every write names a declared slot, \<^verbatim>\<open>bad_arguments\<close>
  is returned only if \<^verbatim>\<open>get_texture_view\<close> itself answers with it.
\<close>

theorem unresolved_slot_bad_arguments:
  "find_binding_index (m_bindings (m_layout st)) slot
       = length (takeWhile (\<lambda>b. binding_slot b \<noteq> slot) (m_bindings (m_layout st)))
   \<and> ((find_binding_index (m_bindings (m_layout st)) slot = length (m_bindings (m_layout st)))
        = (slot \<notin> slots_of st))
   \<and> (update_descriptors env pre st = (Inr (), st1) \<and> write_binding_slot w \<notin> slots_of st \<longrightarrow>
        update_descriptors env (pre @ w # post) st = (Inl bad_arguments, st1))
   \<and> (update_descriptors env failed st = (Inl err, st2) \<longrightarrow>
        update_descriptors env (failed @ rest) st = (Inl err, st2))
   \<and> ((\<forall>w \<in> set ws. write_binding_slot w \<in> slots_of st)
        \<and> (\<forall>w \<in> set ws. \<forall>v \<in> set (texture_views w).
              get_texture_view env (tv_texture v) (validate_texture_view_desc env (tv_texture v) v)
                \<noteq> Inl bad_arguments) \<longrightarrow>
        fst (update_descriptors env ws st) \<noteq> Inl bad_arguments)"
proof -
  have "fst (update_descriptors env ws st) \<noteq> Inl bad_arguments"
    if "\<forall>w \<in> set ws. write_binding_slot w \<in> slots_of st"
      and "\<forall>w \<in> set ws. \<forall>v \<in> set (texture_views w).
              get_texture_view env (tv_texture v) (validate_texture_view_desc env (tv_texture v) v)
                \<noteq> Inl bad_arguments"
    using update_descriptors_error [of ws st env bad_arguments] that by auto
  then show ?thesis
    by (simp add: find_binding_index_takeWhile [symmetric] find_binding_index_unresolved slots_of_def
        update_descriptors_unresolved [unfolded slots_of_def] update_descriptors_failed_prefix)
qed

theorem unresolved_slot_bad_arguments_witness:
  "find_binding_index (m_bindings (m_layout empty_set)) 3 = 3
   \<and> find_binding_index (m_bindings (m_layout empty_set)) 9 = 5
   \<and> length (m_bindings (m_layout empty_set)) = 5
   \<and> 9 \<notin> slots_of empty_set
   \<and> write_binding_slot unknown_slot_write = 9
   \<and> fst (update_descriptors plain_backend [uniform_write] empty_set) = Inr ()
   \<and> update_descriptors plain_backend ([uniform_write] @ unknown_slot_write # [typed_read_write]) empty_set
       = (Inl bad_arguments, snd (update_descriptors plain_backend [uniform_write] empty_set))
   \<and> data (snd (update_descriptors plain_backend [uniform_write, unknown_slot_write, typed_read_write]
              empty_set)) 0 = 0x10002
   \<and> data (snd (update_descriptors plain_backend [uniform_write, unknown_slot_write, typed_read_write]
              empty_set)) 5 = 0
   \<and> update_descriptors failing_sampler_backend [sampler_write] empty_set
       = (Inl bad_platform_call, empty_set)
   \<and> update_descriptors failing_sampler_backend ([sampler_write] @ [unknown_slot_write, uniform_write])
        empty_set = (Inl bad_platform_call, empty_set)
   \<and> write_binding_slot uniform_write \<in> slots_of empty_set
   \<and> write_binding_slot typed_read_write \<in> slots_of empty_set
   \<and> texture_views uniform_write = [] \<and> texture_views typed_read_write = []
   \<and> fst (update_descriptors plain_backend [uniform_write, typed_read_write] empty_set) \<noteq> Inl bad_arguments"
  using unresolved_slot_bad_arguments [where st = empty_set and slot = 3]
    unresolved_slot_bad_arguments [where st = empty_set and slot = 9 and env = plain_backend
      and pre = "[uniform_write]"
      and ?st1.0 = "snd (update_descriptors plain_backend [uniform_write] empty_set)"
      and w = unknown_slot_write and post = "[typed_read_write]"
      and ws = "[uniform_write, typed_read_write]"]
    unresolved_slot_bad_arguments [where st = empty_set and env = failing_sampler_backend
      and failed = "[sampler_write]" and err = bad_platform_call and ?st2.0 = empty_set
      and rest = "[unknown_slot_write, uniform_write]"]
  by (simp add: slots_of_def apply_write_def set_error_def argument_offset_of_def uniform_data_offset_def
      typed_data_offset_def fixtures Let_def)

text \<open>
  C7 as stated fails when an earlier write of the batch fails: a sampler write for which
  the device creates no sampler, followed by a write to slot 9, which the layout does
  not declare, returns \<^verbatim>\<open>bad_platform_call\<close>, not \<^verbatim>\<open>bad_arguments\<close>.
\<close>

theorem earlier_failure_counterexample:
  "write_binding_slot unknown_slot_write \<notin> slots_of empty_set
   \<and> fst (update_descriptors failing_sampler_backend [sampler_write, unknown_slot_write] empty_set)
       = Inl bad_platform_call
   \<and> fst (update_descriptors failing_sampler_backend [sampler_write, unknown_slot_write] empty_set)
       \<noteq> Inl bad_arguments"
  by (simp add: slots_of_def apply_write_def set_error_def argument_offset_of_def fixtures Let_def)

end
